theory Spec2Isabelle
  imports Main
begin

section \<open>Values\<close>

text \<open>
  The cache stores, and the API returns, whatever \<^verbatim>\<open>response.json()\<close> produced: the
  TypeScript types are erased at run time, so the payloads are JSON values. An object is
  the list of its own properties in insertion order. Numbers are integers here (the
  claims read a number only for its truthiness).
\<close>

datatype json =
    JNull
  | JBool bool
  | JNum int
  | JStr string
  | JArr "json list"
  | JObj "(string \<times> json) list"

text \<open>JavaScript's truthiness, as \<^verbatim>\<open>if (cached)\<close> reads it.\<close>

fun truthy :: "json \<Rightarrow> bool" where
  "truthy JNull = False"
| "truthy (JBool b) = b"
| "truthy (JNum n) = (n \<noteq> 0)"
| "truthy (JStr s) = (s \<noteq> [])"
| "truthy (JArr xs) = True"
| "truthy (JObj ps) = True"

text \<open>
  Assigning one property: an existing key keeps its place and takes the new value, a new
  key goes last. The object spread \<^verbatim>\<open>{ ...target, ...source }\<close> assigns the properties
  of the source in order.
\<close>

fun set_prop :: "string \<Rightarrow> json \<Rightarrow> (string \<times> json) list \<Rightarrow> (string \<times> json) list" where
  "set_prop k v [] = [(k, v)]"
| "set_prop k v ((k', v') # ps) =
     (if k = k' then (k, v) # ps else (k', v') # set_prop k v ps)"

fun spread :: "(string \<times> json) list \<Rightarrow> (string \<times> json) list \<Rightarrow> (string \<times> json) list" where
  "spread target [] = target"
| "spread target ((k, v) # ps) = spread (set_prop k v target) ps"

section \<open>Errors and promises\<close>

text \<open>
  A promise that has settled is a value of \<open>error + 'a\<close>: \<open>Inl\<close> is a rejection,
  \<open>Inr\<close> a fulfilment. An \<^verbatim>\<open>async\<close> function takes the state and returns its
  settled promise with the state it left.
\<close>

datatype error =
    StorageError        \<comment> \<open>\<^verbatim>\<open>request.error\<close> of an IndexedDB request\<close>
  | NetworkError        \<comment> \<open>\<^verbatim>\<open>fetch\<close> rejected\<close>
  | Failed string       \<comment> \<open>\<^verbatim>\<open>new Error(message)\<close> thrown by the API layer\<close>
  | BodyError           \<comment> \<open>\<^verbatim>\<open>response.json()\<close> rejected\<close>

text \<open>
  A call whose promise is neither awaited nor returned: what it does to the state
  happens, its result (a rejection too) reaches nobody. The model runs it to the end at
  the place of the call; interleavings with later operations are outside the model.
\<close>

definition detached :: "('s \<Rightarrow> 'r \<times> 's) \<Rightarrow> 's \<Rightarrow> 's" where
  "detached task s = snd (task s)"

section \<open>Structured client store (services/cacheService.ts)\<close>

definition LIST_CACHE_KEY :: string where
  "LIST_CACHE_KEY = ''__list__''"

definition CACHE_TTL :: int where
  "CACHE_TTL = 5 * 60 * 1000"

text \<open>
  The object store holds one item per key (its key path \<^verbatim>\<open>id\<close>); the item is the
  \<^verbatim>\<open>CacheEntry\<close> beside its key. Times are milliseconds, as \<^verbatim>\<open>Date.now()\<close> gives them.
\<close>

record CacheEntry =
  data :: json
  timestamp :: int
  expiresAt :: int

type_synonym idb = "string \<rightharpoonup> CacheEntry"

text \<open>
  What the database does to one operation. Each of \<^verbatim>\<open>getFromCache\<close>,
  \<^verbatim>\<open>saveToCache\<close> and \<^verbatim>\<open>deleteFromCache\<close> has the shape
  \<^verbatim>\<open>try { const db = await initDB(); ...; return new Promise(...) } catch (error) { ... }\<close>
  and so two places where the database can fail:
  \<^item> \<open>OpenFails\<close>: \<^verbatim>\<open>initDB()\<close> rejects (\<^verbatim>\<open>request.onerror\<close> of the open request).
    The rejection is awaited inside \<^verbatim>\<open>try\<close>, so \<^verbatim>\<open>catch\<close> takes it.
  \<^item> \<open>RequestFails\<close>: the store request fires \<^verbatim>\<open>onerror\<close>, which rejects the promise
    built by \<^verbatim>\<open>new Promise\<close>. That promise is returned without \<^verbatim>\<open>await\<close>, so the
    function has left \<^verbatim>\<open>try\<close> already and its own promise takes the rejection.
  \<^item> \<open>Succeeds\<close>: the request fires \<^verbatim>\<open>onsuccess\<close>.
\<close>

datatype idb_outcome = OpenFails | RequestFails | Succeeds

definition deleteFromCache :: "idb_outcome \<Rightarrow> string \<Rightarrow> idb \<Rightarrow> (error + unit) \<times> idb" where
  "deleteFromCache oc key db =
     (case oc of
        OpenFails \<Rightarrow> (Inr (), db)
      | RequestFails \<Rightarrow> (Inl StorageError, db)
      | Succeeds \<Rightarrow> (Inr (), db(key := None)))"

text \<open>
  The environment of one read: the database's answer to the lookup, the clock at the
  expiry check, and the database's answer to the deletion an expired entry sets off.
\<close>

record read_env =
  r_store :: idb_outcome
  r_now :: int
  r_evict :: idb_outcome

text \<open>The function returns \<^verbatim>\<open>T | null\<close>: \<open>JNull\<close> is its \<^verbatim>\<open>null\<close>.\<close>

definition getFromCache :: "read_env \<Rightarrow> string \<Rightarrow> idb \<Rightarrow> (error + json) \<times> idb" where
  "getFromCache env key db =
     (case r_store env of
        OpenFails \<Rightarrow> (Inr JNull, db)
      | RequestFails \<Rightarrow> (Inl StorageError, db)
      | Succeeds \<Rightarrow>
          (case db key of
             None \<Rightarrow> (Inr JNull, db)
           | Some entry \<Rightarrow>
               if r_now env > expiresAt entry
               then (Inr JNull, detached (deleteFromCache (r_evict env) key) db)
               else (Inr (data entry), db)))"

text \<open>
  The environment of one write: the database's answer, and the two readings of the clock
  (\<^verbatim>\<open>timestamp: Date.now(), expiresAt: Date.now() + ttl\<close> calls it twice).
\<close>

record write_env =
  w_store :: idb_outcome
  w_time1 :: int
  w_time2 :: int

definition saveToCache :: "write_env \<Rightarrow> string \<Rightarrow> json \<Rightarrow> int \<Rightarrow> idb \<Rightarrow> (error + unit) \<times> idb" where
  "saveToCache env key d ttl db =
     (case w_store env of
        OpenFails \<Rightarrow> (Inr (), db)
      | RequestFails \<Rightarrow> (Inl StorageError, db)
      | Succeeds \<Rightarrow>
          (Inr (), db(key \<mapsto> \<lparr>data = d, timestamp = w_time1 env, expiresAt = w_time2 env + ttl\<rparr>)))"

definition clearCache :: "idb_outcome \<Rightarrow> idb \<Rightarrow> (error + unit) \<times> idb" where
  "clearCache oc db =
     (case oc of
        OpenFails \<Rightarrow> (Inr (), db)
      | RequestFails \<Rightarrow> (Inl StorageError, db)
      | Succeeds \<Rightarrow> (Inr (), Map.empty))"

definition getCachedPictogramList :: "read_env \<Rightarrow> idb \<Rightarrow> (error + json) \<times> idb" where
  "getCachedPictogramList env db = getFromCache env LIST_CACHE_KEY db"

definition cachePictogramList :: "write_env \<Rightarrow> json \<Rightarrow> idb \<Rightarrow> (error + unit) \<times> idb" where
  "cachePictogramList env pictograms db = saveToCache env LIST_CACHE_KEY pictograms CACHE_TTL db"

definition invalidatePictogramListCache :: "idb_outcome \<Rightarrow> idb \<Rightarrow> (error + unit) \<times> idb" where
  "invalidatePictogramListCache oc db = deleteFromCache oc LIST_CACHE_KEY db"

definition invalidatePictogramCache ::
  "idb_outcome \<Rightarrow> idb_outcome \<Rightarrow> string \<Rightarrow> idb \<Rightarrow> (error + unit) \<times> idb" where
  "invalidatePictogramCache oc1 oc2 ident db =
     (case deleteFromCache oc1 ident db of
        (Inl e, db1) \<Rightarrow> (Inl e, db1)
      | (Inr u, db1) \<Rightarrow> invalidatePictogramListCache oc2 db1)"

section \<open>Cache coordinator (services/apiService.ts)\<close>

text \<open>
  A request to the API, its URL written relative to \<^verbatim>\<open>API_ENDPOINT\<close>, and what
  \<^verbatim>\<open>await fetch(...)\<close> gives back. \<^verbatim>\<open>response.ok\<close> is the status being in 200..299;
  the body is \<open>None\<close> when it is not JSON, and \<^verbatim>\<open>response.json()\<close> rejects then.
\<close>

record api_request =
  verb :: string
  path :: string
  payload :: "json option"

record http_response =
  status :: nat
  statusText :: string
  body :: "json option"

datatype fetch_result = Rejects | Responds http_response

definition ok :: "http_response \<Rightarrow> bool" where
  "ok response = (200 \<le> status response \<and> status response \<le> 299)"

definition createPictogram ::
  "(api_request \<Rightarrow> fetch_result) \<Rightarrow> idb_outcome \<Rightarrow> json \<Rightarrow> idb \<Rightarrow> (error + json) \<times> idb" where
  "createPictogram net oc pictogram db =
     (case net \<lparr>verb = ''POST'', path = ''/pictograms'', payload = Some pictogram\<rparr> of
        Rejects \<Rightarrow> (Inl NetworkError, db)
      | Responds response \<Rightarrow>
          if \<not> ok response
          then (Inl (Failed (''Failed to create pictogram: '' @ statusText response)), db)
          else
            (case body response of
               None \<Rightarrow> (Inl BodyError, db)
             | Some newPictogram \<Rightarrow>
                 (case invalidatePictogramListCache oc db of
                    (Inl e, db1) \<Rightarrow> (Inl e, db1)
                  | (Inr u, db1) \<Rightarrow> (Inr newPictogram, db1))))"

text \<open>
  \<^verbatim>\<open>userId?: string\<close> is tested by truthiness: an absent and an empty user id both
  make the request unfiltered.
\<close>

definition unfiltered :: "string option \<Rightarrow> bool" where
  "unfiltered userId = (case userId of None \<Rightarrow> True | Some u \<Rightarrow> u = [])"

definition listPictograms ::
  "(api_request \<Rightarrow> fetch_result) \<Rightarrow> read_env \<Rightarrow> write_env \<Rightarrow> string option \<Rightarrow> idb
     \<Rightarrow> (error + json) \<times> idb" where
  "listPictograms net renv wenv userId db =
     (case (if unfiltered userId then getCachedPictogramList renv db else (Inr JNull, db)) of
        (Inl e, db1) \<Rightarrow> (Inl e, db1)
      | (Inr cached, db1) \<Rightarrow>
          if unfiltered userId \<and> truthy cached then (Inr cached, db1)
          else
            (case net \<lparr>verb = ''GET'',
                       path = (case userId of
                                 None \<Rightarrow> ''/pictograms''
                               | Some u \<Rightarrow> if u = [] then ''/pictograms''
                                          else ''/pictograms?userId='' @ u),
                       payload = None\<rparr> of
               Rejects \<Rightarrow> (Inl NetworkError, db1)
             | Responds response \<Rightarrow>
                 if \<not> ok response
                 then (Inl (Failed (''Failed to list pictograms: '' @ statusText response)), db1)
                 else
                   (case body response of
                      None \<Rightarrow> (Inl BodyError, db1)
                    | Some pictograms \<Rightarrow>
                        if unfiltered userId
                        then
                          (case cachePictogramList wenv pictograms db1 of
                             (Inl e, db2) \<Rightarrow> (Inl e, db2)
                           | (Inr u, db2) \<Rightarrow> (Inr pictograms, db2))
                        else (Inr pictograms, db1))))"

definition updatePictogram ::
  "(api_request \<Rightarrow> fetch_result) \<Rightarrow> idb_outcome \<Rightarrow> idb_outcome \<Rightarrow> string
     \<Rightarrow> (string \<times> json) list \<Rightarrow> idb \<Rightarrow> (error + json) \<times> idb" where
  "updatePictogram net oc1 oc2 ident updates db =
     (case net \<lparr>verb = ''PATCH'', path = ''/pictograms/'' @ ident,
                payload = Some (JObj updates)\<rparr> of
        Rejects \<Rightarrow> (Inl NetworkError, db)
      | Responds response \<Rightarrow>
          if \<not> ok response
          then
            (case invalidatePictogramCache oc1 oc2 ident db of
               (Inl e, db1) \<Rightarrow> (Inl e, db1)
             | (Inr u, db1) \<Rightarrow> (Inr (JObj (spread [(''id'', JStr ident)] updates)), db1))
          else
            (case body response of
               None \<Rightarrow> (Inl BodyError, db)
             | Some updatedPictogram \<Rightarrow>
                 (case invalidatePictogramCache oc1 oc2 ident db of
                    (Inl e, db1) \<Rightarrow> (Inl e, db1)
                  | (Inr u, db1) \<Rightarrow> (Inr updatedPictogram, db1))))"

section \<open>Request proxy (public/sw.js)\<close>

definition CACHE_VERSION :: string where
  "CACHE_VERSION = ''v1''"

definition CACHE_NAMES_images :: string where
  "CACHE_NAMES_images = ''leopictos-images-'' @ CACHE_VERSION"

definition CACHE_NAMES_api :: string where
  "CACHE_NAMES_api = ''leopictos-api-'' @ CACHE_VERSION"

definition CACHE_NAMES_static :: string where
  "CACHE_NAMES_static = ''leopictos-static-'' @ CACHE_VERSION"

text \<open>
  Modelled from the spec: the platform's cache storage, which is no code of this
  repository. A stored record is a response under a request identity (method and URL) in
  one named partition, so a partition is a map from request identities to responses and
  \<^verbatim>\<open>caches\<close> maps names to partitions. What else the platform decides about a record
  (which requests and responses it agrees to store) is outside the model: a partition
  stores what it is given. The proxy's state also keeps, in order, what the proxy did to
  the network and to the partitions, and whether \<^verbatim>\<open>self.skipWaiting()\<close> has been
  called.
\<close>

record request =
  rmethod :: string
  url :: string

datatype event =
    Fetched request
  | Looked_up string request
  | Stored string request

record proxy =
  caches :: "string \<rightharpoonup> (request \<rightharpoonup> http_response)"
  events :: "event list"
  skipWaitingFlag :: bool

definition cache_of :: "proxy \<Rightarrow> string \<Rightarrow> (request \<rightharpoonup> http_response)" where
  "cache_of p name = (case caches p name of None \<Rightarrow> Map.empty | Some c \<Rightarrow> c)"

text \<open>\<^verbatim>\<open>caches.open(name)\<close> creates the cache when there is none of that name.\<close>

definition caches_open :: "string \<Rightarrow> proxy \<Rightarrow> proxy" where
  "caches_open name p =
     (case caches p name of
        None \<Rightarrow> p\<lparr>caches := (caches p)(name \<mapsto> Map.empty)\<rparr>
      | Some c \<Rightarrow> p)"

definition cache_match :: "string \<Rightarrow> request \<Rightarrow> proxy \<Rightarrow> http_response option \<times> proxy" where
  "cache_match name rq p = (cache_of p name rq, p\<lparr>events := events p @ [Looked_up name rq]\<rparr>)"

definition cache_put :: "string \<Rightarrow> request \<Rightarrow> http_response \<Rightarrow> proxy \<Rightarrow> unit \<times> proxy" where
  "cache_put name rq response p =
     ((), p\<lparr>caches := (caches p)(name \<mapsto> (cache_of p name)(rq \<mapsto> response)),
             events := events p @ [Stored name rq]\<rparr>)"

definition caches_delete :: "string \<Rightarrow> proxy \<Rightarrow> proxy" where
  "caches_delete name p = p\<lparr>caches := (caches p)(name := None)\<rparr>"

definition fetch :: "(request \<Rightarrow> fetch_result) \<Rightarrow> request \<Rightarrow> proxy \<Rightarrow> fetch_result \<times> proxy" where
  "fetch net rq p = (net rq, p\<lparr>events := events p @ [Fetched rq]\<rparr>)"

text \<open>
  The three strategies. \<^verbatim>\<open>cache.put(request, networkResponse.clone())\<close> is never
  awaited. The \<^verbatim>\<open>catch\<close> of the cache-first strategy logs the error and throws it
  again.

  The cache-first strategy resolves while the put it has started is still under way, and
  what follows depends on whether the copy is in the cache yet. So its result holds three
  things: what the strategy resolves with, the proxy's state at that moment, and the put
  that is pending then, if any. \<open>settle\<close> is that put coming to its end.
\<close>

record pending_put =
  put_cache :: string
  put_request :: request
  put_response :: http_response

record cache_first_result =
  resolved :: "error + http_response"
  at_return :: proxy
  pending :: "pending_put option"

definition settle :: "pending_put option \<Rightarrow> proxy \<Rightarrow> proxy" where
  "settle started p =
     (case started of
        None \<Rightarrow> p
      | Some w \<Rightarrow> snd (cache_put (put_cache w) (put_request w) (put_response w) p))"

definition cacheFirstStrategy ::
  "(request \<Rightarrow> fetch_result) \<Rightarrow> request \<Rightarrow> string \<Rightarrow> proxy \<Rightarrow> cache_first_result" where
  "cacheFirstStrategy net rq cacheName p =
     (case cache_match cacheName rq (caches_open cacheName p) of
        (Some cachedResponse, p1) \<Rightarrow>
          \<lparr>resolved = Inr cachedResponse, at_return = p1, pending = None\<rparr>
      | (None, p1) \<Rightarrow>
          (case fetch net rq p1 of
             (Rejects, p2) \<Rightarrow> \<lparr>resolved = Inl NetworkError, at_return = p2, pending = None\<rparr>
           | (Responds networkResponse, p2) \<Rightarrow>
               \<lparr>resolved = Inr networkResponse,
                at_return = p2,
                pending =
                  (if ok networkResponse
                   then Some \<lparr>put_cache = cacheName, put_request = rq,
                              put_response = networkResponse\<rparr>
                   else None)\<rparr>))"

text \<open>
  In the other two strategies the put is a detached call, run at the place of the call.
\<close>

definition networkFirstStrategy ::
  "(request \<Rightarrow> fetch_result) \<Rightarrow> request \<Rightarrow> string \<Rightarrow> proxy \<Rightarrow> (error + http_response) \<times> proxy" where
  "networkFirstStrategy net rq cacheName p =
     (case fetch net rq p of
        (Responds networkResponse, p1) \<Rightarrow>
          (Inr networkResponse,
           if ok networkResponse \<and> rmethod rq = ''GET''
           then detached (cache_put cacheName rq networkResponse) (caches_open cacheName p1)
           else p1)
      | (Rejects, p1) \<Rightarrow>
          (case cache_match cacheName rq (caches_open cacheName p1) of
             (Some cachedResponse, p2) \<Rightarrow> (Inr cachedResponse, p2)
           | (None, p2) \<Rightarrow> (Inl NetworkError, p2)))"

text \<open>
  The strategy resolves with \<^verbatim>\<open>cachedResponse || fetchPromise\<close>, a response or
  \<^verbatim>\<open>undefined\<close> (\<open>None\<close>). The fetch is issued whether or not a copy is cached;
  its promise settles with the network's response, or, through
  \<^verbatim>\<open>.catch(() => cachedResponse)\<close>, with the cached copy when the fetch rejects.
\<close>

definition or_else :: "'a option \<Rightarrow> 'a option \<Rightarrow> 'a option" where
  "or_else a b = (case a of Some x \<Rightarrow> Some x | None \<Rightarrow> b)"

definition staleWhileRevalidateStrategy ::
  "(request \<Rightarrow> fetch_result) \<Rightarrow> request \<Rightarrow> string \<Rightarrow> proxy
     \<Rightarrow> (error + http_response option) \<times> proxy" where
  "staleWhileRevalidateStrategy net rq cacheName p =
     (case cache_match cacheName rq (caches_open cacheName p) of
        (cachedResponse, p1) \<Rightarrow>
          (case fetch net rq p1 of
             (Responds networkResponse, p2) \<Rightarrow>
               (Inr (or_else cachedResponse (Some networkResponse)),
                if ok networkResponse
                then detached (cache_put cacheName rq networkResponse) p2
                else p2)
           | (Rejects, p2) \<Rightarrow> (Inr (or_else cachedResponse cachedResponse), p2)))"

subsection \<open>Lifecycle handlers\<close>

text \<open>
  \<^verbatim>\<open>cache.addAll(urls)\<close> fetches every URL and stores the responses, all or none: one
  rejected or non-ok fetch rejects the whole call, and the listener's \<^verbatim>\<open>.catch\<close> only
  logs that.
\<close>

fun fetch_all ::
  "(request \<Rightarrow> fetch_result) \<Rightarrow> string list \<Rightarrow> proxy \<Rightarrow> (request \<times> http_response) list option \<times> proxy" where
  "fetch_all net [] p = (Some [], p)"
| "fetch_all net (u # us) p =
     (case fetch net \<lparr>rmethod = ''GET'', url = u\<rparr> p of
        (Rejects, p1) \<Rightarrow> (None, snd (fetch_all net us p1))
      | (Responds response, p1) \<Rightarrow>
          (case fetch_all net us p1 of
             (None, p2) \<Rightarrow> (None, p2)
           | (Some rs, p2) \<Rightarrow>
               if ok response
               then (Some ((\<lparr>rmethod = ''GET'', url = u\<rparr>, response) # rs), p2)
               else (None, p2)))"

fun put_all :: "string \<Rightarrow> (request \<times> http_response) list \<Rightarrow> proxy \<Rightarrow> proxy" where
  "put_all name [] p = p"
| "put_all name ((rq, response) # rs) p = put_all name rs (snd (cache_put name rq response p))"

definition cache_addAll :: "(request \<Rightarrow> fetch_result) \<Rightarrow> string \<Rightarrow> string list \<Rightarrow> proxy \<Rightarrow> proxy" where
  "cache_addAll net name urls p =
     (case fetch_all net urls p of
        (None, p1) \<Rightarrow> p1
      | (Some rs, p1) \<Rightarrow> put_all name rs p1)"

definition install_listener :: "(request \<Rightarrow> fetch_result) \<Rightarrow> proxy \<Rightarrow> proxy" where
  "install_listener net p =
     (cache_addAll net CACHE_NAMES_static [''/'', ''/index.html'', ''/manifest.json'']
        (caches_open CACHE_NAMES_static p))
     \<lparr>skipWaitingFlag := True\<rparr>"

text \<open>
  A message's data: \<open>None\<close> for a falsy \<^verbatim>\<open>event.data\<close>, else its \<^verbatim>\<open>type\<close> and its
  \<^verbatim>\<open>cacheName\<close> (tested by truthiness: an empty name counts as none).
\<close>

record message_data =
  msg_type :: string
  cacheName :: "string option"

definition delete_all_caches :: "proxy \<Rightarrow> proxy" where
  "delete_all_caches p = p\<lparr>caches := Map.empty\<rparr>"

definition message_listener :: "message_data option \<Rightarrow> proxy \<Rightarrow> proxy" where
  "message_listener event_data p =
     (case event_data of
        None \<Rightarrow> p
      | Some d \<Rightarrow>
          (let p1 =
             (if msg_type d = ''INVALIDATE_CACHE''
              then (case cacheName d of
                      None \<Rightarrow> delete_all_caches p
                    | Some n \<Rightarrow> if n \<noteq> [] then caches_delete n p else delete_all_caches p)
              else p)
           in if msg_type d = ''SKIP_WAITING'' then p1\<lparr>skipWaitingFlag := True\<rparr> else p1))"

text \<open>
  Modelled from the spec: the platform's rule for an instance whose installation has
  finished, which is no code of this repository. The lifecycle reads INSTALLING, then
  WAITING while a prior instance may still be controlling traffic, then ACTIVATING; a
  request to skip waiting makes the pending instance activate at once instead of waiting.
\<close>

datatype phase = Installing | Waiting | Activating | Active

definition after_install :: "bool \<Rightarrow> proxy \<Rightarrow> phase" where
  "after_install prior_instance_controls p =
     (if skipWaitingFlag p then Activating
      else if prior_instance_controls then Waiting
      else Activating)"

section \<open>Sample environments\<close>

text \<open>Concrete networks, payloads and stores, for the instances the theorems are run at.\<close>

definition not_found :: http_response where
  "not_found = \<lparr>status = 404, statusText = ''Not Found'', body = None\<rparr>"

definition net_not_found :: "api_request \<Rightarrow> fetch_result" where
  "net_not_found rq = Responds not_found"

definition net_down :: "api_request \<Rightarrow> fetch_result" where
  "net_down rq = Rejects"

definition net_serving :: "json \<Rightarrow> api_request \<Rightarrow> fetch_result" where
  "net_serving v rq = Responds \<lparr>status = 200, statusText = ''OK'', body = Some v\<rparr>"

definition perro :: json where
  "perro = JObj [(''id'', JStr ''p1''), (''word'', JStr ''PERRO'')]"

definition casa :: json where
  "casa = JObj [(''id'', JStr ''p2''), (''word'', JStr ''CASA'')]"

definition sample_db :: idb where
  "sample_db =
     [''p1'' \<mapsto> \<lparr>data = perro, timestamp = 0, expiresAt = 300000\<rparr>,
      LIST_CACHE_KEY \<mapsto> \<lparr>data = JArr [perro], timestamp = 0, expiresAt = 300000\<rparr>]"

definition healthy_read :: "int \<Rightarrow> read_env" where
  "healthy_read t = \<lparr>r_store = Succeeds, r_now = t, r_evict = Succeeds\<rparr>"

definition healthy_write :: "int \<Rightarrow> write_env" where
  "healthy_write t = \<lparr>w_store = Succeeds, w_time1 = t, w_time2 = t\<rparr>"

definition offline :: "request \<Rightarrow> fetch_result" where
  "offline rq = Rejects"

definition online :: "http_response \<Rightarrow> request \<Rightarrow> fetch_result" where
  "online response rq = Responds response"

definition photo :: request where
  "photo = \<lparr>rmethod = ''GET'', url = ''https://bucket.s3.amazonaws.com/perro.png''\<rparr>"

definition listing :: request where
  "listing = \<lparr>rmethod = ''GET'', url = ''https://api.example/dev/pictograms''\<rparr>"

definition posting :: request where
  "posting = \<lparr>rmethod = ''POST'', url = ''https://api.example/dev/pictograms''\<rparr>"

definition bytes :: http_response where
  "bytes = \<lparr>status = 200, statusText = ''OK'', body = Some (JStr ''png'')\<rparr>"

definition fresh_proxy :: proxy where
  "fresh_proxy = \<lparr>caches = Map.empty, events = [], skipWaitingFlag = False\<rparr>"

section \<open>Properties of the structured client store\<close>

text \<open>What the object spread does to a property lookup: the source's properties win.\<close>

lemma map_of_set_prop: "map_of (set_prop k v ps) = (map_of ps)(k \<mapsto> v)"
  by (induction ps) auto

lemma spread_id_kept:
  "map_of updates ''id'' = None \<Longrightarrow>
   map_of (spread ((''id'', JStr ident) # ps) updates) ''id'' = Some (JStr ident)"
proof (induction updates arbitrary: ps)
  case Nil
  then show ?case by simp
next
  case (Cons a updates)
  obtain k v where a: "a = (k, v)" by (cases a)
  with Cons.prems have "k \<noteq> ''id''" and rest: "map_of updates ''id'' = None"
    by (auto split: if_splits)
  then have "set_prop k v ((''id'', JStr ident) # ps) = (''id'', JStr ident) # set_prop k v ps"
    by simp
  with Cons.IH [OF rest] a show ?case by simp
qed

text \<open>
  A database that cannot be opened is a miss and a skipped write: \<^verbatim>\<open>catch\<close> takes the
  rejection of \<^verbatim>\<open>initDB()\<close> and the store is left as it was.
\<close>

lemma storage_unavailable_is_a_miss:
  "getFromCache (env\<lparr>r_store := OpenFails\<rparr>) key db = (Inr JNull, db)"
  "saveToCache (wenv\<lparr>w_store := OpenFails\<rparr>) key d ttl db = (Inr (), db)"
  "deleteFromCache OpenFails key db = (Inr (), db)"
  by (simp_all add: getFromCache_def saveToCache_def deleteFromCache_def)

text \<open>
  Claim C2, at the input where the code departs from it. The claim: on any storage
  failure (the backend unavailable, the quota exceeded, a failed store request) a read
  returns none and a write or a deletion completes, and no caller sees a storage error.
  The code: when the store request itself fails, the promise each operation returns
  rejects, since it left \<^verbatim>\<open>try\<close> without \<^verbatim>\<open>await\<close>; and a list read whose write to the
  cache fails so rejects although the network answered.
\<close>

theorem failed_store_request_rejects:
  "getFromCache \<lparr>r_store = RequestFails, r_now = 0, r_evict = Succeeds\<rparr> ''p1'' sample_db
     = (Inl StorageError, sample_db)
   \<and> saveToCache \<lparr>w_store = RequestFails, w_time1 = 0, w_time2 = 0\<rparr> ''p1'' perro CACHE_TTL sample_db
     = (Inl StorageError, sample_db)
   \<and> deleteFromCache RequestFails ''p1'' sample_db = (Inl StorageError, sample_db)
   \<and> listPictograms (net_serving (JArr [perro, casa])) (healthy_read 400000)
        \<lparr>w_store = RequestFails, w_time1 = 400000, w_time2 = 400000\<rparr> None Map.empty
     = (Inl StorageError, Map.empty)"
  by (simp add: getFromCache_def saveToCache_def deleteFromCache_def listPictograms_def
      getCachedPictogramList_def cachePictogramList_def unfiltered_def healthy_read_def
      net_serving_def ok_def)

text \<open>The entry a write stores: its expiry is counted from the second reading of the clock.\<close>

lemma saveToCache_entry:
  "w_store env = Succeeds \<Longrightarrow>
   snd (saveToCache env key d ttl db) key
     = Some \<lparr>data = d, timestamp = w_time1 env, expiresAt = w_time2 env + ttl\<rparr>"
  by (simp add: saveToCache_def)

text \<open>
  Claim C4, at the input where the code departs from it. The claim: the entry written by
  a put has \<open>expiresAt = timestamp + ttl\<close>. The code reads the clock once for
  \<^verbatim>\<open>timestamp\<close> and again for \<^verbatim>\<open>expiresAt\<close>; when the clock ticks between the two
  readings (1000, then 1001) the entry's lifetime is one millisecond longer than the ttl.
\<close>

theorem saveToCache_reads_clock_twice:
  "snd (saveToCache \<lparr>w_store = Succeeds, w_time1 = 1000, w_time2 = 1001\<rparr>
          ''p1'' perro 300000 Map.empty) ''p1''
     = Some \<lparr>data = perro, timestamp = 1000, expiresAt = 301001\<rparr>
   \<and> (301001::int) \<noteq> 1000 + 300000"
  by (simp add: saveToCache_def)

text \<open>
  Claim C5, as amended. For every key \<open>k\<close> and ttl: after \<open>put(k, v, ttl)\<close> has written
  its entry and the clock has passed the entry's \<open>expiresAt\<close>, a \<open>get(k)\<close> whose store
  request does not fail returns none. The entry is deleted from the store by that get when
  the database opens for the get and the deletion it sets off succeeds; otherwise the
  entry stays stored.
\<close>

theorem expired_entry_is_evicted:
  assumes "w_store wenv = Succeeds"
    and "r_store renv \<noteq> RequestFails"
    and "w_time2 wenv + ttl < r_now renv"
  shows "getFromCache renv k (snd (saveToCache wenv k v ttl db)) =
           (Inr JNull,
            if r_store renv = Succeeds \<and> r_evict renv = Succeeds
            then db(k := None)
            else db(k \<mapsto> \<lparr>data = v, timestamp = w_time1 wenv, expiresAt = w_time2 wenv + ttl\<rparr>))"
  using assms
  by (cases "r_store renv"; cases "r_evict renv")
     (simp_all add: getFromCache_def saveToCache_def detached_def deleteFromCache_def)

theorem expired_entry_is_evicted_witness:
  "getFromCache (healthy_read 301001) ''p1''
     (snd (saveToCache (healthy_write 1000) ''p1'' perro 300000 Map.empty))
   = (Inr JNull, Map.empty)"
  using expired_entry_is_evicted
    [of "healthy_write 1000" "healthy_read 301001" 300000 "''p1''" perro Map.empty]
  by (simp add: healthy_read_def healthy_write_def)

text \<open>
  The claim as stated fails when the deletion the get sets off cannot open the database:
  the get returns none and the expired entry is still in the store.
\<close>

theorem expired_entry_is_evicted_counterexample:
  "fst (getFromCache \<lparr>r_store = Succeeds, r_now = 301001, r_evict = OpenFails\<rparr> ''p1''
          (snd (saveToCache (healthy_write 1000) ''p1'' perro 300000 Map.empty)))
     = Inr JNull
   \<and> snd (getFromCache \<lparr>r_store = Succeeds, r_now = 301001, r_evict = OpenFails\<rparr> ''p1''
          (snd (saveToCache (healthy_write 1000) ''p1'' perro 300000 Map.empty))) ''p1''
     = Some \<lparr>data = perro, timestamp = 1000, expiresAt = 301000\<rparr>"
  by (simp add: getFromCache_def saveToCache_def detached_def deleteFromCache_def healthy_write_def)

section \<open>Properties of the cache coordinator\<close>

lemma invalidatePictogramCache_cases:
  "oc1 \<noteq> RequestFails \<Longrightarrow> oc2 \<noteq> RequestFails \<Longrightarrow>
   invalidatePictogramCache oc1 oc2 ident db =
     (Inr (),
      (if oc2 = Succeeds
       then (if oc1 = Succeeds then db(ident := None) else db)(LIST_CACHE_KEY := None)
       else (if oc1 = Succeeds then db(ident := None) else db)))"
  by (cases oc1; cases oc2)
     (simp_all add: invalidatePictogramCache_def invalidatePictogramListCache_def
        deleteFromCache_def)

text \<open>
  Claim C1, as amended. For every update call that receives a non-2xx response and during
  which neither deletion's store request fails, \<open>updatePictogram(id, updates)\<close> resolves
  with the synthesized record \<^verbatim>\<open>{id, ...updates}\<close>. The entity entry for the id and the
  list entry are each deleted when the database opens for that deletion, and left in
  place, with no error, when it does not.
\<close>

theorem update_soft_failure:
  assumes "net \<lparr>verb = ''PATCH'', path = ''/pictograms/'' @ ident, payload = Some (JObj updates)\<rparr>
             = Responds response"
    and "\<not> ok response"
    and "oc1 \<noteq> RequestFails" and "oc2 \<noteq> RequestFails"
  shows "updatePictogram net oc1 oc2 ident updates db =
           (Inr (JObj (spread [(''id'', JStr ident)] updates)),
            (if oc2 = Succeeds
             then (if oc1 = Succeeds then db(ident := None) else db)(LIST_CACHE_KEY := None)
             else (if oc1 = Succeeds then db(ident := None) else db)))"
  using assms by (simp add: updatePictogram_def invalidatePictogramCache_cases)

theorem update_soft_failure_witness:
  "\<not> ok not_found
   \<and> updatePictogram net_not_found Succeeds Succeeds ''p1'' [(''word'', JStr ''GATO'')] sample_db
       = (Inr (JObj [(''id'', JStr ''p1''), (''word'', JStr ''GATO'')]), Map.empty)"
  using update_soft_failure [of net_not_found "''p1''" "[(''word'', JStr ''GATO'')]" not_found
      Succeeds Succeeds sample_db]
  by (simp add: net_not_found_def not_found_def ok_def sample_db_def LIST_CACHE_KEY_def)

text \<open>
  The claim as stated fails on a 404 when the database cannot be opened for the two
  deletions: the call resolves with the synthesized record, and the entity entry and the
  list entry are both still stored. (When a deletion's store request fails instead, the
  call rejects: the second conjunct.)
\<close>

theorem update_soft_failure_counterexample:
  "updatePictogram net_not_found OpenFails OpenFails ''p1'' [(''word'', JStr ''GATO'')] sample_db
     = (Inr (JObj [(''id'', JStr ''p1''), (''word'', JStr ''GATO'')]), sample_db)
   \<and> sample_db ''p1'' \<noteq> None \<and> sample_db LIST_CACHE_KEY \<noteq> None
   \<and> fst (updatePictogram net_not_found RequestFails Succeeds ''p1'' [(''word'', JStr ''GATO'')]
            sample_db)
       = Inl StorageError"
  by (simp add: updatePictogram_def invalidatePictogramCache_def invalidatePictogramListCache_def
      deleteFromCache_def net_not_found_def not_found_def ok_def sample_db_def LIST_CACHE_KEY_def)

text \<open>
  Claim C3, as amended. For every update call whose fetch itself fails (it rejects, no
  response comes back), \<open>updatePictogram\<close> rejects with the network failure and
  invalidates nothing: no \<^verbatim>\<open>try\<close> stands around the fetch. It does not degrade to the
  synthesized record.
\<close>

theorem update_network_failure:
  assumes "net \<lparr>verb = ''PATCH'', path = ''/pictograms/'' @ ident, payload = Some (JObj updates)\<rparr>
             = Rejects"
  shows "updatePictogram net oc1 oc2 ident updates db = (Inl NetworkError, db)"
  using assms by (simp add: updatePictogram_def)

theorem update_network_failure_witness:
  "updatePictogram net_down Succeeds Succeeds ''p1'' [(''word'', JStr ''GATO'')] sample_db
     = (Inl NetworkError, sample_db)"
  using update_network_failure [of net_down "''p1''" "[(''word'', JStr ''GATO'')]"]
  by (simp add: net_down_def)

text \<open>
  The claim as stated fails with the network down: the call rejects, and what it settles
  with is not the synthesized record.
\<close>

theorem update_network_failure_counterexample:
  "fst (updatePictogram net_down Succeeds Succeeds ''p1'' [(''word'', JStr ''GATO'')] sample_db)
     = Inl NetworkError
   \<and> fst (updatePictogram net_down Succeeds Succeeds ''p1'' [(''word'', JStr ''GATO'')] sample_db)
     \<noteq> Inr (JObj [(''id'', JStr ''p1''), (''word'', JStr ''GATO'')])"
  by (simp add: updatePictogram_def net_down_def)

lemma createPictogram_success:
  assumes "createPictogram net oc pictogram db = (Inr created, db1)"
  shows "oc \<noteq> RequestFails \<and> db1 = (if oc = Succeeds then db(LIST_CACHE_KEY := None) else db)"
  using assms
  by (cases oc)
     (auto simp: createPictogram_def invalidatePictogramListCache_def deleteFromCache_def
           split: fetch_result.splits if_splits option.splits)

lemma listPictograms_miss:
  assumes "db LIST_CACHE_KEY = None"
    and "unfiltered userId"
    and "r_store renv \<noteq> RequestFails" and "w_store wenv \<noteq> RequestFails"
  shows "listPictograms net renv wenv userId db =
           (case net \<lparr>verb = ''GET'', path = ''/pictograms'', payload = None\<rparr> of
              Rejects \<Rightarrow> (Inl NetworkError, db)
            | Responds response \<Rightarrow>
                if \<not> ok response
                then (Inl (Failed (''Failed to list pictograms: '' @ statusText response)), db)
                else
                  (case body response of
                     None \<Rightarrow> (Inl BodyError, db)
                   | Some fresh \<Rightarrow>
                       (Inr fresh,
                        if w_store wenv = Succeeds
                        then db(LIST_CACHE_KEY \<mapsto>
                               \<lparr>data = fresh, timestamp = w_time1 wenv,
                                expiresAt = w_time2 wenv + CACHE_TTL\<rparr>)
                        else db)))"
proof -
  have miss: "getCachedPictogramList renv db = (Inr JNull, db)"
    using assms(1,3)
    by (cases "r_store renv") (simp_all add: getCachedPictogramList_def getFromCache_def)
  have path: "(case userId of None \<Rightarrow> ''/pictograms''
               | Some u \<Rightarrow> if u = [] then ''/pictograms'' else ''/pictograms?userId='' @ u)
              = ''/pictograms''"
    using assms(2) by (simp add: unfiltered_def split: option.splits)
  have save: "cachePictogramList wenv fresh db =
                (Inr (), if w_store wenv = Succeeds
                         then db(LIST_CACHE_KEY \<mapsto>
                                \<lparr>data = fresh, timestamp = w_time1 wenv,
                                 expiresAt = w_time2 wenv + CACHE_TTL\<rparr>)
                         else db)" for fresh
    using assms(4)
    by (cases "w_store wenv") (simp_all add: cachePictogramList_def saveToCache_def)
  show ?thesis
    unfolding listPictograms_def path
    using assms(2)
    by (simp add: miss save split: fetch_result.splits option.splits)
qed

text \<open>
  Claim C6, as amended. A create that succeeds changes the store in one way only: it
  deletes the list entry when the database opens for the invalidation, and leaves the
  store as it was when it does not (no entity entry is ever written). When the list entry
  was deleted, the next unfiltered list read whose store requests do not fail takes its
  result from the network: the fresh collection on an ok response, cached again when the
  database opens for the write; a rejection otherwise. It never returns the collection
  cached before the create.
\<close>

theorem create_invalidates_list:
  assumes "createPictogram net1 oc pictogram db = (Inr created, db1)"
    and "unfiltered userId"
    and "r_store renv \<noteq> RequestFails" and "w_store wenv \<noteq> RequestFails"
  shows "db1 = (if oc = Succeeds then db(LIST_CACHE_KEY := None) else db)
         \<and> (oc = Succeeds \<longrightarrow>
              listPictograms net2 renv wenv userId db1 =
                (case net2 \<lparr>verb = ''GET'', path = ''/pictograms'', payload = None\<rparr> of
                   Rejects \<Rightarrow> (Inl NetworkError, db1)
                 | Responds response \<Rightarrow>
                     if \<not> ok response
                     then (Inl (Failed (''Failed to list pictograms: '' @ statusText response)),
                           db1)
                     else
                       (case body response of
                          None \<Rightarrow> (Inl BodyError, db1)
                        | Some fresh \<Rightarrow>
                            (Inr fresh,
                             if w_store wenv = Succeeds
                             then db1(LIST_CACHE_KEY \<mapsto>
                                    \<lparr>data = fresh, timestamp = w_time1 wenv,
                                     expiresAt = w_time2 wenv + CACHE_TTL\<rparr>)
                             else db1))))"
proof (intro conjI impI)
  from assms(1) show db1: "db1 = (if oc = Succeeds then db(LIST_CACHE_KEY := None) else db)"
    using createPictogram_success by fastforce
  assume "oc = Succeeds"
  with db1 have "db1 LIST_CACHE_KEY = None" by simp
  then show "listPictograms net2 renv wenv userId db1 =
                (case net2 \<lparr>verb = ''GET'', path = ''/pictograms'', payload = None\<rparr> of
                   Rejects \<Rightarrow> (Inl NetworkError, db1)
                 | Responds response \<Rightarrow>
                     if \<not> ok response
                     then (Inl (Failed (''Failed to list pictograms: '' @ statusText response)),
                           db1)
                     else
                       (case body response of
                          None \<Rightarrow> (Inl BodyError, db1)
                        | Some fresh \<Rightarrow>
                            (Inr fresh,
                             if w_store wenv = Succeeds
                             then db1(LIST_CACHE_KEY \<mapsto>
                                    \<lparr>data = fresh, timestamp = w_time1 wenv,
                                     expiresAt = w_time2 wenv + CACHE_TTL\<rparr>)
                             else db1)))"
    using assms(2,3,4) by (rule listPictograms_miss)
qed

theorem create_invalidates_list_witness:
  "createPictogram (net_serving casa) Succeeds casa sample_db
     = (Inr casa, sample_db(LIST_CACHE_KEY := None))
   \<and> listPictograms (net_serving (JArr [perro, casa])) (healthy_read 2000) (healthy_write 2000) None
        (sample_db(LIST_CACHE_KEY := None))
      = (Inr (JArr [perro, casa]),
         sample_db(LIST_CACHE_KEY \<mapsto>
           \<lparr>data = JArr [perro, casa], timestamp = 2000, expiresAt = 302000\<rparr>))"
proof -
  have c: "createPictogram (net_serving casa) Succeeds casa sample_db
             = (Inr casa, sample_db(LIST_CACHE_KEY := None))"
    by (simp add: createPictogram_def net_serving_def ok_def invalidatePictogramListCache_def
        deleteFromCache_def)
  show ?thesis
    using create_invalidates_list [OF c, of None "healthy_read 2000" "healthy_write 2000"
        "net_serving (JArr [perro, casa])"] c
    by (simp add: unfiltered_def healthy_read_def healthy_write_def net_serving_def ok_def
        CACHE_TTL_def)
qed

text \<open>
  The claim as stated fails when the database cannot be opened for the invalidation: the
  create succeeds, the list entry stays, and the next unfiltered read returns the
  collection cached before the create although the network holds the new one.
\<close>

theorem create_invalidates_list_counterexample:
  "createPictogram (net_serving casa) OpenFails casa sample_db = (Inr casa, sample_db)
   \<and> listPictograms (net_serving (JArr [perro, casa])) (healthy_read 2000) (healthy_write 2000) None
        sample_db
      = (Inr (JArr [perro]), sample_db)"
  by (simp add: createPictogram_def listPictograms_def net_serving_def ok_def
      invalidatePictogramListCache_def deleteFromCache_def getCachedPictogramList_def
      getFromCache_def unfiltered_def healthy_read_def sample_db_def LIST_CACHE_KEY_def)

section \<open>Properties of the request proxy\<close>

lemma cache_of_open: "cache_of (caches_open name p) name' = cache_of p name'"
  by (simp add: cache_of_def caches_open_def split: option.splits)

lemma cache_of_events: "cache_of (p\<lparr>events := es\<rparr>) name = cache_of p name"
  by (simp add: cache_of_def)

lemma events_open: "events (caches_open name p) = events p"
  by (simp add: caches_open_def split: option.splits)

lemma cache_of_put:
  "cache_of (snd (cache_put name rq response p)) name' =
     (if name' = name then (cache_of p name)(rq \<mapsto> response) else cache_of p name')"
  by (simp add: cache_of_def cache_put_def)

lemma events_put:
  "events (snd (cache_put name rq response p)) = events p @ [Stored name rq]"
  by (simp add: cache_put_def)

lemma caches_open_existing: "cache_of p name rq = Some c \<Longrightarrow> caches_open name p = p"
  by (simp add: cache_of_def caches_open_def split: option.splits)

text \<open>
  Claim C7. For every request, the network-first strategy starts with the live fetch. On
  a response it returns that response, and stores a copy exactly when the response is ok
  and the method is GET. When the fetch fails it returns the copy stored for the request
  if there is one, and rejects with the failure if there is none; the cache is unchanged.
\<close>

theorem network_first:
  "(\<exists>later. events (snd (networkFirstStrategy net rq name p)) = events p @ Fetched rq # later)
   \<and> (\<forall>response. net rq = Responds response \<longrightarrow>
          fst (networkFirstStrategy net rq name p) = Inr response
          \<and> cache_of (snd (networkFirstStrategy net rq name p)) name =
              (if ok response \<and> rmethod rq = ''GET''
               then (cache_of p name)(rq \<mapsto> response)
               else cache_of p name))
   \<and> (net rq = Rejects \<longrightarrow>
          fst (networkFirstStrategy net rq name p) =
            (case cache_of p name rq of
               Some cachedResponse \<Rightarrow> Inr cachedResponse
             | None \<Rightarrow> Inl NetworkError)
          \<and> cache_of (snd (networkFirstStrategy net rq name p)) name = cache_of p name)"
  by (cases "net rq")
     (auto simp: networkFirstStrategy_def fetch_def cache_match_def detached_def
        cache_of_open cache_of_events cache_of_put events_open events_put
        split: option.splits)

text \<open>
  Online, the fetch fills the cache; the same request with the network down is served
  the stored copy; with the network down and nothing stored the failure comes through; a
  POST is not stored.
\<close>

theorem network_first_witness:
  "fst (networkFirstStrategy (online bytes) listing CACHE_NAMES_api fresh_proxy) = Inr bytes
   \<and> fst (networkFirstStrategy offline listing CACHE_NAMES_api
            (snd (networkFirstStrategy (online bytes) listing CACHE_NAMES_api fresh_proxy)))
       = Inr bytes
   \<and> fst (networkFirstStrategy offline listing CACHE_NAMES_api fresh_proxy) = Inl NetworkError
   \<and> cache_of (snd (networkFirstStrategy (online bytes) posting CACHE_NAMES_api fresh_proxy))
        CACHE_NAMES_api = Map.empty"
proof -
  let ?p1 = "snd (networkFirstStrategy (online bytes) listing CACHE_NAMES_api fresh_proxy)"
  have empty: "cache_of fresh_proxy CACHE_NAMES_api = Map.empty"
    by (simp add: cache_of_def fresh_proxy_def)
  have okb: "ok bytes" by (simp add: ok_def bytes_def)
  have get: "rmethod listing = ''GET''" and post: "rmethod posting \<noteq> ''GET''"
    by (simp_all add: listing_def posting_def)
  from network_first [of "online bytes" listing CACHE_NAMES_api fresh_proxy]
  have first: "fst (networkFirstStrategy (online bytes) listing CACHE_NAMES_api fresh_proxy)
                 = Inr bytes"
    and stored: "cache_of ?p1 CACHE_NAMES_api = Map.empty(listing \<mapsto> bytes)"
    using okb get empty by (simp_all add: online_def)
  from network_first [of offline listing CACHE_NAMES_api ?p1] stored
  have second: "fst (networkFirstStrategy offline listing CACHE_NAMES_api ?p1) = Inr bytes"
    by (simp add: offline_def)
  from network_first [of offline listing CACHE_NAMES_api fresh_proxy] empty
  have third: "fst (networkFirstStrategy offline listing CACHE_NAMES_api fresh_proxy)
                 = Inl NetworkError"
    by (simp add: offline_def)
  from network_first [of "online bytes" posting CACHE_NAMES_api fresh_proxy] post empty
  have fourth: "cache_of (snd (networkFirstStrategy (online bytes) posting CACHE_NAMES_api
                   fresh_proxy)) CACHE_NAMES_api = Map.empty"
    by (simp add: online_def)
  show ?thesis using first second third fourth by simp
qed

text \<open>
  Claim C8, as amended. For every request, the cache-first strategy returns the stored
  copy when there is one, and the only thing it does then is the lookup: no fetch, no put.
  When there is none it fetches and returns the response; on an ok response it has started
  to store a copy when it returns, and has not awaited that: the copy is not in the cache
  at the moment of return, and is there once the put has settled. Hence, of two fetches of
  one request, the first answered ok by the network and the second made with the network
  down after the put of the first has settled, both succeed, with the same response.
\<close>

theorem cache_first:
  "(\<forall>cachedResponse. cache_of p name rq = Some cachedResponse \<longrightarrow>
       cacheFirstStrategy net rq name p =
         \<lparr>resolved = Inr cachedResponse,
          at_return = p\<lparr>events := events p @ [Looked_up name rq]\<rparr>,
          pending = None\<rparr>)
   \<and> (\<forall>response. cache_of p name rq = None \<and> net rq = Responds response \<longrightarrow>
          resolved (cacheFirstStrategy net rq name p) = Inr response
          \<and> cache_of (at_return (cacheFirstStrategy net rq name p)) name = cache_of p name
          \<and> pending (cacheFirstStrategy net rq name p) =
              (if ok response
               then Some \<lparr>put_cache = name, put_request = rq, put_response = response\<rparr>
               else None)
          \<and> cache_of (settle (pending (cacheFirstStrategy net rq name p))
                         (at_return (cacheFirstStrategy net rq name p))) name =
              (if ok response then (cache_of p name)(rq \<mapsto> response) else cache_of p name))
   \<and> (\<forall>response. net rq = Responds response \<and> ok response \<and> net' rq = Rejects \<longrightarrow>
          (\<exists>served. resolved (cacheFirstStrategy net rq name p) = Inr served
             \<and> resolved (cacheFirstStrategy net' rq name
                   (settle (pending (cacheFirstStrategy net rq name p))
                      (at_return (cacheFirstStrategy net rq name p))))
                 = Inr served))"
  by (cases "cache_of p name rq")
     (auto simp: cacheFirstStrategy_def fetch_def cache_match_def settle_def
        caches_open_existing cache_of_open cache_of_events cache_of_put)

text \<open>
  A first fetch answered by the network, the put settled, then the same fetch with the
  network down: the second is served the stored copy by a lookup alone.
\<close>

theorem cache_first_witness:
  "resolved (cacheFirstStrategy (online bytes) photo CACHE_NAMES_images fresh_proxy) = Inr bytes
   \<and> pending (cacheFirstStrategy (online bytes) photo CACHE_NAMES_images fresh_proxy)
       = Some \<lparr>put_cache = CACHE_NAMES_images, put_request = photo, put_response = bytes\<rparr>
   \<and> cache_of (settle (pending (cacheFirstStrategy (online bytes) photo CACHE_NAMES_images
                                   fresh_proxy))
                  (at_return (cacheFirstStrategy (online bytes) photo CACHE_NAMES_images
                                fresh_proxy)))
        CACHE_NAMES_images photo = Some bytes
   \<and> resolved (cacheFirstStrategy offline photo CACHE_NAMES_images
         (settle (pending (cacheFirstStrategy (online bytes) photo CACHE_NAMES_images
                             fresh_proxy))
            (at_return (cacheFirstStrategy (online bytes) photo CACHE_NAMES_images
                          fresh_proxy))))
       = Inr bytes
   \<and> pending (cacheFirstStrategy offline photo CACHE_NAMES_images
         (settle (pending (cacheFirstStrategy (online bytes) photo CACHE_NAMES_images
                             fresh_proxy))
            (at_return (cacheFirstStrategy (online bytes) photo CACHE_NAMES_images
                          fresh_proxy))))
       = None"
proof -
  let ?r1 = "cacheFirstStrategy (online bytes) photo CACHE_NAMES_images fresh_proxy"
  let ?p1 = "settle (pending ?r1) (at_return ?r1)"
  have miss: "cache_of fresh_proxy CACHE_NAMES_images photo = None"
    by (simp add: cache_of_def fresh_proxy_def)
  have net: "online bytes photo = Responds bytes" and okb: "ok bytes"
    by (simp_all add: online_def ok_def bytes_def)
  from cache_first [of fresh_proxy CACHE_NAMES_images photo "online bytes" offline] miss net
  have first: "resolved ?r1 = Inr bytes"
    and started': "pending ?r1
                    = (if ok bytes
                       then Some \<lparr>put_cache = CACHE_NAMES_images, put_request = photo,
                                  put_response = bytes\<rparr>
                       else None)"
    and stored': "cache_of ?p1 CACHE_NAMES_images
                    = (if ok bytes then (cache_of fresh_proxy CACHE_NAMES_images)(photo \<mapsto> bytes)
                       else cache_of fresh_proxy CACHE_NAMES_images)"
    by blast+
  from started' okb
  have started: "pending ?r1
                   = Some \<lparr>put_cache = CACHE_NAMES_images, put_request = photo,
                           put_response = bytes\<rparr>"
    by (simp only: if_True)
  from stored' okb
  have "cache_of ?p1 CACHE_NAMES_images = (cache_of fresh_proxy CACHE_NAMES_images)(photo \<mapsto> bytes)"
    by (simp only: if_True)
  then have stored: "cache_of ?p1 CACHE_NAMES_images photo = Some bytes"
    by (simp only: fun_upd_same)
  from cache_first [of ?p1 CACHE_NAMES_images photo offline offline] stored
  have second: "cacheFirstStrategy offline photo CACHE_NAMES_images ?p1 =
                  \<lparr>resolved = Inr bytes,
                   at_return = ?p1\<lparr>events := events ?p1 @ [Looked_up CACHE_NAMES_images photo]\<rparr>,
                   pending = None\<rparr>"
    by simp
  from second have second_resolved: "resolved (cacheFirstStrategy offline photo CACHE_NAMES_images ?p1) = Inr bytes"
    and second_pending: "pending (cacheFirstStrategy offline photo CACHE_NAMES_images ?p1) = None"
    by simp_all
  from first started stored second_resolved second_pending show ?thesis
    by (intro conjI)
qed

text \<open>
  The claim as stated fails at the moment the strategy returns: the first fetch is
  answered ok and resolves with the response, the copy is not in the cache yet (the put is
  pending), and the same fetch made then with the network down is rejected.
\<close>

theorem cache_first_counterexample:
  "resolved (cacheFirstStrategy (online bytes) photo CACHE_NAMES_images fresh_proxy) = Inr bytes
   \<and> cache_of (at_return (cacheFirstStrategy (online bytes) photo CACHE_NAMES_images fresh_proxy))
        CACHE_NAMES_images photo = None
   \<and> resolved (cacheFirstStrategy offline photo CACHE_NAMES_images
         (at_return (cacheFirstStrategy (online bytes) photo CACHE_NAMES_images fresh_proxy)))
       = Inl NetworkError"
  by (simp add: cacheFirstStrategy_def cache_match_def fetch_def caches_open_def cache_of_def
      online_def offline_def bytes_def ok_def fresh_proxy_def)

text \<open>
  Claim C9. In the stale-while-revalidate strategy, when no copy is stored for the
  request and the fetch fails, the strategy resolves with \<^verbatim>\<open>undefined\<close> (\<open>Inr None\<close>):
  the failure of the fetch does not reach the caller.
\<close>

theorem swr_offline_miss:
  assumes "cache_of p name rq = None" and "net rq = Rejects"
  shows "fst (staleWhileRevalidateStrategy net rq name p) = Inr None"
  using assms
  by (simp add: staleWhileRevalidateStrategy_def cache_match_def fetch_def or_else_def
      cache_of_open)

theorem swr_offline_miss_witness:
  "staleWhileRevalidateStrategy offline photo CACHE_NAMES_static fresh_proxy
     = (Inr None,
        \<lparr>caches = [CACHE_NAMES_static \<mapsto> Map.empty],
         events = [Looked_up CACHE_NAMES_static photo, Fetched photo],
         skipWaitingFlag = False\<rparr>)"
proof -
  have miss: "cache_of fresh_proxy CACHE_NAMES_static photo = None"
    by (simp add: cache_of_def fresh_proxy_def)
  have down: "offline photo = Rejects" by (simp add: offline_def)
  have st: "snd (staleWhileRevalidateStrategy offline photo CACHE_NAMES_static fresh_proxy)
              = \<lparr>caches = [CACHE_NAMES_static \<mapsto> Map.empty],
                  events = [Looked_up CACHE_NAMES_static photo, Fetched photo],
                  skipWaitingFlag = False\<rparr>"
    by (simp add: staleWhileRevalidateStrategy_def cache_match_def fetch_def offline_def
        caches_open_def fresh_proxy_def)
  from swr_offline_miss [of fresh_proxy CACHE_NAMES_static photo offline] miss down st
  show ?thesis by (simp add: prod_eq_iff)
qed

lemma message_listener_keeps_flag:
  "skipWaitingFlag p \<Longrightarrow> skipWaitingFlag (message_listener m p)"
  by (simp add: message_listener_def Let_def delete_all_caches_def caches_delete_def
      split: option.splits)

lemma messages_keep_flag:
  "skipWaitingFlag p \<Longrightarrow> skipWaitingFlag (fold message_listener msgs p)"
  by (induction msgs arbitrary: p) (simp_all add: message_listener_keeps_flag)

text \<open>
  Claim C10. The install handler calls \<^verbatim>\<open>skipWaiting\<close> on every path: whatever the
  state it starts in, whatever messages came before it and come after it (a SKIP_WAITING
  among them or none), and whatever the network does to the precaching, the instance has
  asked to skip waiting once the handler has run, so the step after installation is the
  activation and never the waiting state, also while a prior instance controls the
  application.
\<close>

theorem install_skips_waiting:
  "skipWaitingFlag (install_listener net (fold message_listener before p))
   \<and> after_install prior_instance_controls
        (fold message_listener later (install_listener net (fold message_listener before p)))
       = Activating"
proof -
  have "skipWaitingFlag (install_listener net (fold message_listener before p))"
    by (simp add: install_listener_def)
  then show ?thesis
    by (simp add: after_install_def messages_keep_flag)
qed

end
